theory Spec2Isabelle
  imports Complex_Main
begin

section \<open>The sentiment analyzer of \<open>sentiment-analyzer/app.py\<close>\<close>

subsection \<open>Python strings\<close>

text \<open>
  A Python \<open>str\<close> is a sequence of Unicode code points and \<open>len\<close> counts code points, so
  a string is a list of code points here. ASCII text is written \<open>str_of ''abc''\<close>.
\<close>

type_synonym codepoint = nat
type_synonym pystr = "codepoint list"

definition str_of :: "string \<Rightarrow> pystr" where
  "str_of s = map of_char s"

text \<open>
  \<open>Py_UNICODE_ISSPACE\<close>: the code points that \<open>str.strip()\<close>, \<open>str.split()\<close> and the
  class \<open>\s\<close> of a \<open>str\<close> pattern treat as whitespace (U+0009..U+000D, U+001C..U+0020,
  U+0085, U+00A0, U+1680, U+2000..U+200A, U+2028, U+2029, U+202F, U+205F, U+3000).
\<close>

definition isspace :: "codepoint \<Rightarrow> bool" where
  "isspace c \<longleftrightarrow>
     (9 \<le> c \<and> c \<le> 13) \<or> (28 \<le> c \<and> c \<le> 32) \<or> c = 133 \<or> c = 160 \<or> c = 5760 \<or>
     (8192 \<le> c \<and> c \<le> 8202) \<or> c = 8232 \<or> c = 8233 \<or> c = 8239 \<or> c = 8287 \<or> c = 12288"

text \<open>The classes \<open>[a-zA-Z]\<close> and \<open>[.!?]\<close> of the two patterns of the source.\<close>

definition is_ascii_letter :: "codepoint \<Rightarrow> bool" where
  "is_ascii_letter c \<longleftrightarrow> (65 \<le> c \<and> c \<le> 90) \<or> (97 \<le> c \<and> c \<le> 122)"

definition is_terminator :: "codepoint \<Rightarrow> bool" where
  "is_terminator c \<longleftrightarrow> c = 46 \<or> c = 33 \<or> c = 63"

text \<open>
  \<open>str.lower()\<close>, one code point at a time: \<open>A\<close>..\<open>Z\<close> go to \<open>a\<close>..\<open>z\<close>. This is what
  Python does on every ASCII code point and on every uncased one (the whitespace code
  points are uncased); \<open>clean_text\<close> calls it on nothing else, see \<open>re_sub_keeps\<close>.
\<close>

definition lower_char :: "codepoint \<Rightarrow> codepoint" where
  "lower_char c = (if 65 \<le> c \<and> c \<le> 90 then c + 32 else c)"

definition str_lower :: "pystr \<Rightarrow> pystr" where
  "str_lower text = map lower_char text"

text \<open>\<open>text.strip()\<close>: leading and trailing whitespace removed.\<close>

definition str_strip :: "pystr \<Rightarrow> pystr" where
  "str_strip text = rev (dropWhile isspace (rev (dropWhile isspace text)))"

text \<open>\<open>text.split()\<close>: the maximal runs of non-whitespace code points, in order.\<close>

function str_split :: "pystr \<Rightarrow> pystr list" where
  "str_split [] = []"
| "str_split (c # cs) =
     (if isspace c then str_split cs
      else (c # takeWhile (\<lambda>x. \<not> isspace x) cs) # str_split (dropWhile (\<lambda>x. \<not> isspace x) cs))"
  by pat_completeness auto
termination
  by (relation "measure length") (auto simp: length_dropWhile_le less_Suc_eq_le)

text \<open>
  \<open>re.split('[.!?]+', text)\<close>: the pieces between the maximal runs of terminators; a run
  at the start or at the end of the text leaves an empty piece there, and a text with no
  terminator is one piece.
\<close>

function re_split :: "pystr \<Rightarrow> pystr list" where
  "re_split [] = [[]]"
| "re_split (c # cs) =
     (if is_terminator c then [] # re_split (dropWhile is_terminator cs)
      else (case re_split cs of
              [] \<Rightarrow> [[c]]
            | p # ps \<Rightarrow> (c # p) # ps))"
  by pat_completeness auto
termination
  by (relation "measure length") (auto simp: length_dropWhile_le less_Suc_eq_le)

text \<open>\<open>re.sub(r'[^a-zA-Z\s]', '', text)\<close>: every code point outside the class is deleted.\<close>

definition re_sub :: "pystr \<Rightarrow> pystr" where
  "re_sub text = filter (\<lambda>c. is_ascii_letter c \<or> isspace c) text"

subsection \<open>\<open>clean_text\<close>\<close>

definition clean_text :: "pystr \<Rightarrow> pystr" where
  "clean_text text = str_lower (re_sub text)"

subsection \<open>The toolkit and its failures\<close>

text \<open>
  TextBlob is outside the repository: \<open>blob.tags\<close> and \<open>blob.sentiment\<close> are parameters.
  Each either returns a value or raises; what it raises is an \<open>Exception\<close>, the class both
  handlers of the source catch. \<open>blob.sentiment\<close> is a cached property, so reading
  \<open>.polarity\<close> and then \<open>.subjectivity\<close> is one estimation. Polarity and subjectivity are
  finite floats; they are only compared, so they are real numbers here.
\<close>

datatype exn = Exception string

record toolkit =
  tags :: "pystr \<Rightarrow> exn + (pystr \<times> pystr) list"
  sentiment :: "pystr \<Rightarrow> exn + real \<times> real"

text \<open>The calls a function made to the toolkit, in order, each with the text it passed.\<close>

datatype call = TagsCall pystr | SentimentCall pystr

text \<open>\<open>try: body except Exception: handler\<close>.\<close>

definition try_except :: "exn + 'a \<Rightarrow> (exn \<Rightarrow> exn + 'a) \<Rightarrow> exn + 'a" where
  "try_except body handler = (case body of Inl e \<Rightarrow> handler e | Inr v \<Rightarrow> Inr v)"

text \<open>\<open>collections.Counter\<close> of a sequence: each element that occurs, with its count.\<close>

definition Counter :: "'a list \<Rightarrow> ('a \<rightharpoonup> nat)" where
  "Counter xs = (\<lambda>k. if k \<in> set xs then Some (count_list xs k) else None)"

subsection \<open>\<open>analyze_text_details\<close>\<close>

record text_details =
  word_count :: nat
  sentence_count :: nat
  pos_counts :: "pystr \<rightharpoonup> nat"

text \<open>The list comprehension \<open>[s.strip() for s in re.split('[.!?]+', text) if s.strip()]\<close>.\<close>

definition sentences :: "pystr \<Rightarrow> pystr list" where
  "sentences text = map str_strip (filter (\<lambda>s. str_strip s \<noteq> []) (re_split text))"

text \<open>
  The result is the pair of the toolkit calls made and of what the function returns or
  raises. The inner \<open>try\<close> is around the tagging only; the outer one is around the whole
  body, and its handler recomputes the two counts.
\<close>

definition analyze_text_details :: "toolkit \<Rightarrow> pystr \<Rightarrow> call list \<times> (exn + text_details)" where
  "analyze_text_details tk text =
     (if str_strip text = [] then
        ([], try_except
               (Inr \<lparr>word_count = 0, sentence_count = 0, pos_counts = Counter []\<rparr>)
               (\<lambda>e. Inr \<lparr>word_count = length (str_split text),
                         sentence_count = length (sentences text),
                         pos_counts = Counter []\<rparr>))
      else
        (let words = str_split text;
             sents = sentences text;
             counts = try_except
                        (case tags tk text of
                           Inl e \<Rightarrow> Inl e
                         | Inr tagged \<Rightarrow> Inr (Counter (map snd tagged)))
                        (\<lambda>e. Inr (Counter []))
         in ([TagsCall text],
             try_except
               (case counts of
                  Inl e \<Rightarrow> Inl e
                | Inr c \<Rightarrow> Inr \<lparr>word_count = length words, sentence_count = length sents,
                               pos_counts = c\<rparr>)
               (\<lambda>e. Inr \<lparr>word_count = length (str_split text),
                         sentence_count = length (sentences text),
                         pos_counts = Counter []\<rparr>))))"

subsection \<open>\<open>get_sentiment\<close>\<close>

datatype category = Positive | Negative | Neutral

record sentiment_results =
  polarity :: real
  subjectivity :: real
  category :: category

definition get_sentiment :: "toolkit \<Rightarrow> pystr \<Rightarrow> call list \<times> (exn + sentiment_results)" where
  "get_sentiment tk text =
     ([SentimentCall text],
      try_except
        (case sentiment tk text of
           Inl e \<Rightarrow> Inl e
         | Inr (p, s) \<Rightarrow>
             Inr \<lparr>polarity = p, subjectivity = s,
                  category = (if p > 0 then Positive else if p < 0 then Negative else Neutral)\<rparr>)
        (\<lambda>e. Inr \<lparr>polarity = 0, subjectivity = 1 / 2, category = Neutral\<rparr>))"

subsection \<open>\<open>main\<close>: one analysis and the session history\<close>

text \<open>The dictionary \<open>current_analysis\<close>, with its keys \<open>text\<close>, \<open>sentiment\<close>, \<open>polarity\<close>.\<close>

record history_entry =
  entry_text :: pystr
  entry_sentiment :: category
  entry_polarity :: real

text \<open>\<open>text_input[:50] + "..." if len(text_input) > 50 else text_input\<close>.\<close>

definition preview :: "pystr \<Rightarrow> pystr" where
  "preview text_input =
     (if length text_input > 50 then take 50 text_input @ str_of ''...'' else text_input)"

definition current_analysis :: "pystr \<Rightarrow> sentiment_results \<Rightarrow> history_entry" where
  "current_analysis text_input sentiment_results =
     \<lparr>entry_text = preview text_input,
      entry_sentiment = category sentiment_results,
      entry_polarity = polarity sentiment_results\<rparr>"

text \<open>
  \<open>if current_analysis not in history: history.append(current_analysis)\<close>. Python's
  \<open>in\<close> compares the new dictionary with every element of the list, key by key.
\<close>

definition history_append :: "history_entry list \<Rightarrow> history_entry \<Rightarrow> history_entry list" where
  "history_append history e = (if e \<in> set history then history else history @ [e])"

text \<open>
  What \<open>main\<close> computes for one text: the cleaned text's sentiment, the details of the
  text as typed, and the entry for the history.
\<close>

record analysis =
  sentiment_of :: sentiment_results
  details_of :: text_details
  entry_of :: history_entry

definition analyze :: "toolkit \<Rightarrow> pystr \<Rightarrow> call list \<times> (exn + analysis)" where
  "analyze tk text_input =
     (let cleaned_text = clean_text text_input;
          (calls1, r1) = get_sentiment tk cleaned_text
      in case r1 of
           Inl e \<Rightarrow> (calls1, Inl e)
         | Inr sentiment_results \<Rightarrow>
             (let (calls2, r2) = analyze_text_details tk text_input
              in case r2 of
                   Inl e \<Rightarrow> (calls1 @ calls2, Inl e)
                 | Inr text_details \<Rightarrow>
                     (calls1 @ calls2,
                      Inr \<lparr>sentiment_of = sentiment_results,
                           details_of = text_details,
                           entry_of = current_analysis text_input sentiment_results\<rparr>)))"

text \<open>
  \<open>st.session_state\<close>: the key \<open>history\<close> is absent (\<open>None\<close>) until the first analysis.
  \<open>main\<close> does nothing on an empty text; otherwise it analyses the text, creates the
  history if it is absent and adds the entry to it.
\<close>

type_synonym session_state = "history_entry list option"

definition main :: "toolkit \<Rightarrow> pystr \<Rightarrow> session_state \<Rightarrow> exn + session_state" where
  "main tk text_input st =
     (if text_input = [] then Inr st
      else case snd (analyze tk text_input) of
             Inl e \<Rightarrow> Inl e
           | Inr a \<Rightarrow>
               (let history = (case st of None \<Rightarrow> [] | Some h \<Rightarrow> h)
                in Inr (Some (history_append history (entry_of a)))))"

text \<open>The states of one session: it starts with no history, and each run of \<open>main\<close> is a step.\<close>

inductive reachable :: "session_state \<Rightarrow> bool" where
  start: "reachable None"
| step: "reachable st \<Longrightarrow> main tk text_input st = Inr st' \<Longrightarrow> reachable st'"

subsection \<open>Two toolkits for the examples\<close>

text \<open>
  A toolkit whose model data is missing, so that every call raises, and one that tags every
  word as a noun and knows the polarity of two words.
\<close>

definition failing_toolkit :: toolkit where
  "failing_toolkit =
     \<lparr>tags = (\<lambda>t. Inl (Exception ''MissingCorpusError'')),
      sentiment = (\<lambda>t. Inl (Exception ''MissingCorpusError''))\<rparr>"

definition stub_toolkit :: toolkit where
  "stub_toolkit =
     \<lparr>tags = (\<lambda>t. Inr (map (\<lambda>w. (w, str_of ''NN'')) (str_split t))),
      sentiment = (\<lambda>t. if t = str_of ''good'' then Inr (7 / 10, 3 / 5)
                        else if t = str_of ''bad'' then Inr (- (7 / 10), 2 / 3)
                        else Inr (0, 0))\<rparr>"

section \<open>Properties\<close>

subsection \<open>Handlers, blank texts and the cleaned text\<close>

lemma try_except_Inr: "try_except (Inr v) h = Inr v"
  by (simp add: try_except_def)

lemma try_except_Inl: "try_except (Inl e) h = h e"
  by (simp add: try_except_def)

lemma Counter_Nil: "Counter [] = Map.empty"
  by (simp add: Counter_def)

lemma dropWhile_all_Nil:
  assumes "\<forall>x\<in>set (dropWhile P xs). P x"
  shows "dropWhile P xs = []"
proof (rule ccontr)
  assume ne: "dropWhile P xs \<noteq> []"
  then have "\<not> P (hd (dropWhile P xs))"
    by (rule hd_dropWhile)
  moreover from ne have "hd (dropWhile P xs) \<in> set (dropWhile P xs)"
    by simp
  ultimately show False
    using assms by blast
qed

lemma str_strip_Nil_iff: "str_strip s = [] \<longleftrightarrow> (\<forall>c\<in>set s. isspace c)"
proof
  assume "str_strip s = []"
  then have "\<forall>x\<in>set (dropWhile isspace s). isspace x"
    by (simp add: str_strip_def dropWhile_eq_Nil_conv)
  then have "dropWhile isspace s = []"
    by (rule dropWhile_all_Nil)
  then show "\<forall>c\<in>set s. isspace c"
    by (simp add: dropWhile_eq_Nil_conv)
next
  assume "\<forall>c\<in>set s. isspace c"
  then show "str_strip s = []"
    by (auto simp: str_strip_def dest: set_dropWhileD)
qed

lemma str_split_blank: "\<forall>c\<in>set s. isspace c \<Longrightarrow> str_split s = []"
  by (induction s) auto

lemma terminator_not_space: "is_terminator c \<Longrightarrow> \<not> isspace c"
  by (auto simp: is_terminator_def isspace_def)

lemma re_split_blank: "\<forall>c\<in>set s. isspace c \<Longrightarrow> re_split s = [s]"
  by (induction s) (auto dest: terminator_not_space)

lemma sentences_blank: "\<forall>c\<in>set s. isspace c \<Longrightarrow> sentences s = []"
  by (simp add: sentences_def re_split_blank str_strip_Nil_iff)

lemma lower_char_keeps:
  "is_ascii_letter c \<or> isspace c \<Longrightarrow> is_ascii_letter (lower_char c) \<or> isspace (lower_char c)"
  by (auto simp: is_ascii_letter_def lower_char_def)

lemma lower_char_idem: "lower_char (lower_char c) = lower_char c"
  by (simp add: lower_char_def)

lemma re_sub_keeps: "c \<in> set (re_sub text) \<Longrightarrow> c < 128 \<or> isspace c"
  by (auto simp: re_sub_def is_ascii_letter_def)

lemma re_sub_fixed: "\<forall>c\<in>set xs. is_ascii_letter c \<or> isspace c \<Longrightarrow> re_sub xs = xs"
  by (simp add: re_sub_def)

subsection \<open>What the two splits return\<close>

text \<open>
  The words of \<open>text.split()\<close> are non-empty and free of whitespace, and together they
  are the text without its whitespace; the pieces of \<open>re.split\<close> are free of terminators.
\<close>

lemma str_split_words:
  "w \<in> set (str_split s) \<Longrightarrow> w \<noteq> [] \<and> (\<forall>c\<in>set w. \<not> isspace c)"
proof (induction s rule: str_split.induct)
  case 1
  then show ?case by simp
next
  case (2 c cs)
  show ?case
  proof (cases "isspace c")
    case True
    with 2 show ?thesis by simp
  next
    case False
    with "2.prems" consider
      "w = c # takeWhile (\<lambda>x. \<not> isspace x) cs" |
      "w \<in> set (str_split (dropWhile (\<lambda>x. \<not> isspace x) cs))"
      by auto
    then show ?thesis
    proof cases
      case 1
      have "\<forall>x\<in>set (takeWhile (\<lambda>x. \<not> isspace x) cs). \<not> isspace x"
        using set_takeWhileD by fastforce
      with 1 False show ?thesis by simp
    next
      case 2
      with False "2.IH"(2) show ?thesis by blast
    qed
  qed
qed

lemma filter_takeWhile_same: "filter P (takeWhile P xs) = takeWhile P xs"
  by (induction xs) simp_all

lemma filter_split_at: "filter P xs = filter P (takeWhile Q xs) @ filter P (dropWhile Q xs)"
  by (induction xs) simp_all

lemma concat_str_split: "concat (str_split s) = filter (\<lambda>c. \<not> isspace c) s"
proof (induction s rule: str_split.induct)
  case 1
  show ?case by simp
next
  case (2 c cs)
  show ?case
  proof (cases "isspace c")
    case True
    with 2 show ?thesis by simp
  next
    case False
    have "filter (\<lambda>c. \<not> isspace c) cs =
          takeWhile (\<lambda>x. \<not> isspace x) cs @
          filter (\<lambda>c. \<not> isspace c) (dropWhile (\<lambda>x. \<not> isspace x) cs)"
      using filter_split_at [of "\<lambda>c. \<not> isspace c" cs "\<lambda>x. \<not> isspace x"]
      by (simp only: filter_takeWhile_same)
    with False "2.IH"(2) show ?thesis
      by simp
  qed
qed

lemma re_split_not_Nil: "re_split s \<noteq> []"
proof (induction s rule: re_split.induct)
  case 1
  show ?case by simp
next
  case (2 c cs)
  show ?case
    by (cases "re_split cs") simp_all
qed

lemma re_split_pieces:
  "p \<in> set (re_split s) \<Longrightarrow> \<forall>c\<in>set p. \<not> is_terminator c"
proof (induction s arbitrary: p rule: re_split.induct)
  case 1
  then show ?case by simp
next
  case (2 c cs)
  show ?case
  proof (cases "is_terminator c")
    case True
    with "2.prems" have "p = [] \<or> p \<in> set (re_split (dropWhile is_terminator cs))"
      by simp
    with True "2.IH"(1) show ?thesis
      by fastforce
  next
    case False
    obtain q qs where q: "re_split cs = q # qs"
      using re_split_not_Nil by (cases "re_split cs") simp_all
    with False "2.prems" have "p = c # q \<or> p \<in> set qs"
      by simp
    moreover have "\<forall>x\<in>set q. \<not> is_terminator x"
      using "2.IH"(2) [OF False, of q] q by simp
    moreover have "p \<in> set qs \<Longrightarrow> \<forall>x\<in>set p. \<not> is_terminator x"
      using "2.IH"(2) [OF False, of p] q by simp
    ultimately show ?thesis
      using False by auto
  qed
qed

subsection \<open>The cleaned text\<close>

text \<open>
  C8. \<open>clean_text\<close> is idempotent: cleaning a cleaned text changes nothing. A cleaned
  text holds only lower-case ASCII letters and whitespace, which the pattern keeps and
  \<open>lower\<close> leaves as they are.
\<close>

theorem clean_text_idempotent: "clean_text (clean_text s) = clean_text s"
proof -
  have "\<forall>c\<in>set (clean_text s). is_ascii_letter c \<or> isspace c"
    using lower_char_keeps by (auto simp: clean_text_def str_lower_def re_sub_def)
  then have "re_sub (clean_text s) = clean_text s"
    by (rule re_sub_fixed)
  then have "clean_text (clean_text s) = str_lower (clean_text s)"
    by (simp add: clean_text_def)
  also have "\<dots> = clean_text s"
    by (simp add: clean_text_def str_lower_def lower_char_idem)
  finally show ?thesis .
qed

subsection \<open>\<open>get_sentiment\<close>\<close>

text \<open>
  C5. When the toolkit's sentiment estimation raises on a text, \<open>get_sentiment\<close> returns
  the fallback polarity 0, subjectivity 0.5 and category Neutral, after the one call it
  made, and raises nothing.
\<close>

theorem get_sentiment_fallback:
  "sentiment tk text = Inl e \<Longrightarrow>
   get_sentiment tk text =
     ([SentimentCall text], Inr \<lparr>polarity = 0, subjectivity = 1 / 2, category = Neutral\<rparr>)"
  by (simp add: get_sentiment_def try_except_Inl)

text \<open>The fallback with the toolkit whose every call raises.\<close>

theorem get_sentiment_fallback_witness:
  "sentiment failing_toolkit (str_of ''good'') = Inl (Exception ''MissingCorpusError'') \<and>
   get_sentiment failing_toolkit (str_of ''good'') =
     ([SentimentCall (str_of ''good'')],
      Inr \<lparr>polarity = 0, subjectivity = 1 / 2, category = Neutral\<rparr>)"
proof -
  have h: "sentiment failing_toolkit (str_of ''good'') = Inl (Exception ''MissingCorpusError'')"
    by (simp add: failing_toolkit_def)
  from h get_sentiment_fallback [OF h] show ?thesis
    by simp
qed

text \<open>Whatever the toolkit does, \<open>get_sentiment\<close> and \<open>analyze_text_details\<close> return.\<close>

lemma get_sentiment_returns:
  "\<exists>r. snd (get_sentiment tk text) = Inr r \<and>
       category r = (if polarity r > 0 then Positive else if polarity r < 0 then Negative else Neutral)"
  by (cases "sentiment tk text")
     (auto simp: get_sentiment_def try_except_Inl try_except_Inr split: prod.splits)

lemma analyze_text_details_returns:
  "\<exists>d. snd (analyze_text_details tk text) = Inr d \<and>
       word_count d = length (str_split text) \<and>
       sentence_count d = length (sentences text)"
proof (cases "str_strip text = []")
  case True
  then have "\<forall>c\<in>set text. isspace c"
    by (simp add: str_strip_Nil_iff)
  then have "str_split text = []" and "sentences text = []"
    by (simp_all add: str_split_blank sentences_blank)
  with True show ?thesis
    by (simp add: analyze_text_details_def try_except_Inr)
next
  case False
  then show ?thesis
    by (cases "tags tk text")
       (simp_all add: analyze_text_details_def try_except_Inr try_except_Inl Let_def)
qed

lemma analyze_Inr:
  assumes "snd (get_sentiment tk (clean_text text_input)) = Inr r"
    and "snd (analyze_text_details tk text_input) = Inr d"
  shows "snd (analyze tk text_input) =
           Inr \<lparr>sentiment_of = r, details_of = d, entry_of = current_analysis text_input r\<rparr>"
  using assms
  by (cases "get_sentiment tk (clean_text text_input)"; cases "analyze_text_details tk text_input")
     (simp add: analyze_def)

lemma main_step:
  assumes "text_input \<noteq> []"
    and "snd (get_sentiment tk (clean_text text_input)) = Inr r"
  shows "main tk text_input st =
           Inr (Some (history_append (case st of None \<Rightarrow> [] | Some h \<Rightarrow> h)
                        (current_analysis text_input r)))"
proof -
  obtain d where "snd (analyze_text_details tk text_input) = Inr d"
    using analyze_text_details_returns by blast
  with assms(2) have "snd (analyze tk text_input) =
      Inr \<lparr>sentiment_of = r, details_of = d, entry_of = current_analysis text_input r\<rparr>"
    by (rule analyze_Inr)
  with assms(1) show ?thesis
    by (simp add: main_def)
qed

text \<open>
  C1. For every text, the analysis returns, and its category is Positive exactly when its
  polarity is above 0, Negative exactly when it is below 0 and Neutral exactly when it is
  0; the entry kept for the history carries the same category and polarity.
\<close>

theorem category_from_polarity:
  "\<exists>a. snd (analyze tk s) = Inr a \<and>
       (category (sentiment_of a) = Positive \<longleftrightarrow> polarity (sentiment_of a) > 0) \<and>
       (category (sentiment_of a) = Negative \<longleftrightarrow> polarity (sentiment_of a) < 0) \<and>
       (category (sentiment_of a) = Neutral \<longleftrightarrow> polarity (sentiment_of a) = 0) \<and>
       (entry_sentiment (entry_of a) = Positive \<longleftrightarrow> entry_polarity (entry_of a) > 0) \<and>
       (entry_sentiment (entry_of a) = Negative \<longleftrightarrow> entry_polarity (entry_of a) < 0) \<and>
       (entry_sentiment (entry_of a) = Neutral \<longleftrightarrow> entry_polarity (entry_of a) = 0)"
proof -
  obtain r where r: "snd (get_sentiment tk (clean_text s)) = Inr r"
    and c: "category r = (if polarity r > 0 then Positive else if polarity r < 0 then Negative else Neutral)"
    using get_sentiment_returns by blast
  obtain d where d: "snd (analyze_text_details tk s) = Inr d"
    using analyze_text_details_returns by blast
  let ?a = "\<lparr>sentiment_of = r, details_of = d, entry_of = current_analysis s r\<rparr>"
  have "snd (analyze tk s) = Inr ?a"
    using r d by (rule analyze_Inr)
  moreover have "category r = Positive \<longleftrightarrow> polarity r > 0"
    "category r = Negative \<longleftrightarrow> polarity r < 0"
    "category r = Neutral \<longleftrightarrow> polarity r = 0"
    using c by (auto split: if_splits)
  ultimately show ?thesis
    by (intro exI [of _ ?a]) (simp add: current_analysis_def)
qed

subsection \<open>\<open>analyze_text_details\<close>\<close>

text \<open>
  C4. For a text that is empty or holds only whitespace, \<open>analyze_text_details\<close> returns
  word count 0, sentence count 0 and an empty \<open>pos_counts\<close>, and it has called the toolkit
  not once.
\<close>

theorem blank_text_short_circuit:
  "\<forall>c\<in>set s. isspace c \<Longrightarrow>
   analyze_text_details tk s =
     ([], Inr \<lparr>word_count = 0, sentence_count = 0, pos_counts = Map.empty\<rparr>)"
  by (simp add: analyze_text_details_def str_strip_Nil_iff try_except_Inr Counter_Nil)

text \<open>A space, a tab and a newline; and the empty text.\<close>

theorem blank_text_short_circuit_witness:
  "isspace 32 \<and> isspace 9 \<and> isspace 10 \<and>
   analyze_text_details failing_toolkit [32, 9, 10] =
     ([], Inr \<lparr>word_count = 0, sentence_count = 0, pos_counts = Map.empty\<rparr>) \<and>
   analyze_text_details stub_toolkit [] =
     ([], Inr \<lparr>word_count = 0, sentence_count = 0, pos_counts = Map.empty\<rparr>)"
proof -
  have h: "\<forall>c\<in>set [32, 9, 10 :: nat]. isspace c"
    by (simp add: isspace_def)
  have h0: "\<forall>c\<in>set ([] :: pystr). isspace c"
    by simp
  from h blank_text_short_circuit [OF h, of failing_toolkit]
    blank_text_short_circuit [OF h0, of stub_toolkit]
  show ?thesis
    by simp
qed

text \<open>
  C6. When the tagging raises on a text, \<open>analyze_text_details\<close> raises nothing: it
  returns an empty \<open>pos_counts\<close>, the number of words of \<open>text.split()\<close> and the number
  of non-blank pieces between the runs of terminators.
\<close>

theorem tagging_failure_absorbed:
  "tags tk text = Inl e \<Longrightarrow>
   snd (analyze_text_details tk text) =
     Inr \<lparr>word_count = length (str_split text),
          sentence_count = length (sentences text),
          pos_counts = Map.empty\<rparr>"
proof (cases "str_strip text = []")
  case True
  then have "\<forall>c\<in>set text. isspace c"
    by (simp add: str_strip_Nil_iff)
  then have "str_split text = []" and "sentences text = []"
    by (simp_all add: str_split_blank sentences_blank)
  with True show ?thesis
    by (simp add: analyze_text_details_def try_except_Inr Counter_Nil)
next
  case False
  assume "tags tk text = Inl e"
  with False show ?thesis
    by (simp add: analyze_text_details_def try_except_Inr try_except_Inl Counter_Nil)
qed

text \<open>Four words and one sentence, with the tagger down.\<close>

theorem tagging_failure_absorbed_witness:
  "tags failing_toolkit (str_of ''I love sunny days!'') = Inl (Exception ''MissingCorpusError'') \<and>
   analyze_text_details failing_toolkit (str_of ''I love sunny days!'') =
     ([TagsCall (str_of ''I love sunny days!'')],
      Inr \<lparr>word_count = 4, sentence_count = 1, pos_counts = Map.empty\<rparr>)"
proof -
  have h: "tags failing_toolkit (str_of ''I love sunny days!'') = Inl (Exception ''MissingCorpusError'')"
    by (simp add: failing_toolkit_def)
  have w: "length (str_split (str_of ''I love sunny days!'')) = 4"
    by (simp add: str_of_def isspace_def)
  have n: "length (sentences (str_of ''I love sunny days!'')) = 1"
    by (simp add: str_of_def isspace_def sentences_def is_terminator_def str_strip_def)
  have c: "fst (analyze_text_details failing_toolkit (str_of ''I love sunny days!'')) =
             [TagsCall (str_of ''I love sunny days!'')]"
    by (simp add: analyze_text_details_def str_of_def str_strip_def isspace_def)
  from tagging_failure_absorbed [OF h] h w n c show ?thesis
    by (simp add: prod_eq_iff)
qed

subsection \<open>The preview of the text\<close>

text \<open>
  C7. For a text of more than 50 code points, the text kept in the history has length 53
  and is the first 50 code points followed by three dots; a text of at most 50 code points
  is kept as it is.
\<close>

theorem preview_truncation:
  "(50 < length text_input \<longrightarrow>
      length (entry_text (current_analysis text_input r)) = 53 \<and>
      entry_text (current_analysis text_input r) = take 50 text_input @ str_of ''...'') \<and>
   (length text_input \<le> 50 \<longrightarrow>
      entry_text (current_analysis text_input r) = text_input)"
  by (simp add: current_analysis_def preview_def str_of_def)

text \<open>A text of 51 letters, and one of 18 code points.\<close>

theorem preview_truncation_witness:
  "50 < length (replicate 51 (97 :: nat)) \<and>
   length (entry_text (current_analysis (replicate 51 97)
              \<lparr>polarity = 0, subjectivity = 1 / 2, category = Neutral\<rparr>)) = 53 \<and>
   entry_text (current_analysis (replicate 51 97)
      \<lparr>polarity = 0, subjectivity = 1 / 2, category = Neutral\<rparr>) = replicate 50 97 @ [46, 46, 46] \<and>
   length (str_of ''I love sunny days!'') \<le> 50 \<and>
   entry_text (current_analysis (str_of ''I love sunny days!'')
      \<lparr>polarity = 0, subjectivity = 1 / 2, category = Neutral\<rparr>) = str_of ''I love sunny days!''"
proof -
  let ?r = "\<lparr>polarity = 0, subjectivity = 1 / 2, category = Neutral\<rparr>"
  have long: "50 < length (replicate 51 (97 :: nat))"
    by simp
  have short: "length (str_of ''I love sunny days!'') \<le> 50"
    by (simp add: str_of_def)
  from long short
    preview_truncation [of "replicate 51 97" ?r]
    preview_truncation [of "str_of ''I love sunny days!''" ?r]
  show ?thesis
    by (simp add: str_of_def)
qed

subsection \<open>The session history\<close>

text \<open>
  C2. An entry is added at the end of the history exactly when no equal entry occurs
  anywhere in it, and the history is left as it is exactly when one does; so adding the
  same entry twice in a row adds it once, and two runs of \<open>main\<close> on the same text, from no
  history, leave a history of length 1.
\<close>

theorem history_append_scans_all:
  "(history_append h e = h @ [e] \<longleftrightarrow> e \<notin> set h) \<and>
   (history_append h e = h \<longleftrightarrow> e \<in> set h) \<and>
   history_append (history_append h e) e = history_append h e \<and>
   length (history_append (history_append [] e) e) = 1 \<and>
   (text_input \<noteq> [] \<longrightarrow>
      (\<exists>e'. main tk text_input None = Inr (Some [e']) \<and>
            main tk text_input (Some [e']) = Inr (Some [e'])))"
proof -
  have "\<exists>e'. main tk text_input None = Inr (Some [e']) \<and>
             main tk text_input (Some [e']) = Inr (Some [e'])"
    if ne: "text_input \<noteq> []"
  proof -
    obtain r where r: "snd (get_sentiment tk (clean_text text_input)) = Inr r"
      using get_sentiment_returns by blast
    let ?e = "current_analysis text_input r"
    have "main tk text_input None = Inr (Some [?e])"
      using main_step [OF ne r, of None] by (simp add: history_append_def)
    moreover have "main tk text_input (Some [?e]) = Inr (Some [?e])"
      using main_step [OF ne r, of "Some [?e]"] by (simp add: history_append_def)
    ultimately show ?thesis
      by blast
  qed
  then show ?thesis
    by (simp add: history_append_def)
qed

text \<open>An entry that is not the last one of the history, and two runs on one text.\<close>

theorem history_append_scans_all_witness:
  "history_append
      [\<lparr>entry_text = str_of ''good'', entry_sentiment = Positive, entry_polarity = 7 / 10\<rparr>,
       \<lparr>entry_text = str_of ''bad'', entry_sentiment = Negative, entry_polarity = - (7 / 10)\<rparr>]
      \<lparr>entry_text = str_of ''good'', entry_sentiment = Positive, entry_polarity = 7 / 10\<rparr> =
     [\<lparr>entry_text = str_of ''good'', entry_sentiment = Positive, entry_polarity = 7 / 10\<rparr>,
      \<lparr>entry_text = str_of ''bad'', entry_sentiment = Negative, entry_polarity = - (7 / 10)\<rparr>] \<and>
   str_of ''Good!'' \<noteq> [] \<and>
   (\<exists>e'. main stub_toolkit (str_of ''Good!'') None = Inr (Some [e']) \<and>
         main stub_toolkit (str_of ''Good!'') (Some [e']) = Inr (Some [e']))"
proof -
  let ?g = "\<lparr>entry_text = str_of ''good'', entry_sentiment = Positive, entry_polarity = 7 / 10\<rparr>"
  let ?b = "\<lparr>entry_text = str_of ''bad'', entry_sentiment = Negative, entry_polarity = - (7 / 10)\<rparr>"
  have m: "?g \<in> set [?g, ?b]"
    by simp
  have ne: "str_of ''Good!'' \<noteq> []"
    by (simp add: str_of_def)
  from m ne
    history_append_scans_all [where h = "[?g, ?b]" and e = ?g
      and text_input = "str_of ''Good!''" and tk = stub_toolkit]
  show ?thesis
    by simp
qed

text \<open>
  Adding \<open>good\<close>, then \<open>bad\<close>, then \<open>good\<close> again to an empty history does not give three
  entries.
\<close>

theorem repeat_after_other_counterexample:
  "history_append
     (history_append
        (history_append []
           \<lparr>entry_text = str_of ''good'', entry_sentiment = Positive, entry_polarity = 7 / 10\<rparr>)
        \<lparr>entry_text = str_of ''bad'', entry_sentiment = Negative, entry_polarity = - (7 / 10)\<rparr>)
     \<lparr>entry_text = str_of ''good'', entry_sentiment = Positive, entry_polarity = 7 / 10\<rparr> \<noteq>
   [\<lparr>entry_text = str_of ''good'', entry_sentiment = Positive, entry_polarity = 7 / 10\<rparr>,
    \<lparr>entry_text = str_of ''bad'', entry_sentiment = Negative, entry_polarity = - (7 / 10)\<rparr>,
    \<lparr>entry_text = str_of ''good'', entry_sentiment = Positive, entry_polarity = 7 / 10\<rparr>]"
  by (simp add: history_append_def)

text \<open>
  C3, as the code has it. From an empty history, adding an entry, then a different one,
  then the first again leaves the two entries: the membership test scans the whole
  history, so a repeat is dropped whether or not it follows its original directly.
\<close>

theorem repeat_after_other_suppressed:
  "e1 \<noteq> e2 \<Longrightarrow>
   history_append (history_append (history_append [] e1) e2) e1 = [e1, e2]"
  by (simp add: history_append_def)

text \<open>The two entries of the example above.\<close>

theorem repeat_after_other_suppressed_witness:
  "\<lparr>entry_text = str_of ''good'', entry_sentiment = Positive, entry_polarity = 7 / 10\<rparr> \<noteq>
   \<lparr>entry_text = str_of ''bad'', entry_sentiment = Negative, entry_polarity = - (7 / 10)\<rparr> \<and>
   history_append
     (history_append
        (history_append []
           \<lparr>entry_text = str_of ''good'', entry_sentiment = Positive, entry_polarity = 7 / 10\<rparr>)
        \<lparr>entry_text = str_of ''bad'', entry_sentiment = Negative, entry_polarity = - (7 / 10)\<rparr>)
     \<lparr>entry_text = str_of ''good'', entry_sentiment = Positive, entry_polarity = 7 / 10\<rparr> =
   [\<lparr>entry_text = str_of ''good'', entry_sentiment = Positive, entry_polarity = 7 / 10\<rparr>,
    \<lparr>entry_text = str_of ''bad'', entry_sentiment = Negative, entry_polarity = - (7 / 10)\<rparr>]"
proof -
  let ?g = "\<lparr>entry_text = str_of ''good'', entry_sentiment = Positive, entry_polarity = 7 / 10\<rparr>"
  let ?b = "\<lparr>entry_text = str_of ''bad'', entry_sentiment = Negative, entry_polarity = - (7 / 10)\<rparr>"
  have ne: "?g \<noteq> ?b"
    by simp
  from ne repeat_after_other_suppressed [OF ne] show ?thesis
    by simp
qed

text \<open>One run of \<open>main\<close> keeps the entries of the history pairwise distinct.\<close>

lemma history_append_distinct: "distinct h \<Longrightarrow> distinct (history_append h e)"
  by (simp add: history_append_def)

lemma main_keeps_distinct:
  assumes "main tk text_input st = Inr st'"
    and "\<And>h. st = Some h \<Longrightarrow> distinct h"
    and "st' = Some h'"
  shows "distinct h'"
proof (cases "text_input = []")
  case True
  with assms show ?thesis
    by (simp add: main_def)
next
  case False
  obtain r where "snd (get_sentiment tk (clean_text text_input)) = Inr r"
    using get_sentiment_returns by blast
  with False have "main tk text_input st =
      Inr (Some (history_append (case st of None \<Rightarrow> [] | Some h \<Rightarrow> h)
                   (current_analysis text_input r)))"
    by (rule main_step)
  with assms(1,3) have h': "h' = history_append (case st of None \<Rightarrow> [] | Some h \<Rightarrow> h)
      (current_analysis text_input r)"
    by simp
  have "distinct (case st of None \<Rightarrow> [] | Some h \<Rightarrow> h)"
    using assms(2) by (cases st) simp_all
  with h' show ?thesis
    by (simp add: history_append_distinct)
qed

text \<open>
  C10. In every state a session can reach, the entries of the history are pairwise
  distinct: no entry occurs twice anywhere in it.
\<close>

theorem history_entries_distinct:
  "reachable st \<Longrightarrow> st = Some h \<Longrightarrow> distinct h"
proof (induction arbitrary: h rule: reachable.induct)
  case start
  then show ?case by simp
next
  case (step st tk text_input st')
  show ?case
    using step.hyps(2) step.IH step.prems by (rule main_keeps_distinct)
qed

text \<open>The stub toolkit on two texts, cleaned first.\<close>

lemma sentiment_good:
  "snd (get_sentiment stub_toolkit (clean_text (str_of ''Good!''))) =
     Inr \<lparr>polarity = 7 / 10, subjectivity = 3 / 5, category = Positive\<rparr>"
  by (simp add: get_sentiment_def clean_text_def re_sub_def str_lower_def lower_char_def
      is_ascii_letter_def isspace_def try_except_def stub_toolkit_def str_of_def)

lemma sentiment_bad:
  "snd (get_sentiment stub_toolkit (clean_text (str_of ''BAD''))) =
     Inr \<lparr>polarity = - (7 / 10), subjectivity = 2 / 3, category = Negative\<rparr>"
  by (simp add: get_sentiment_def clean_text_def re_sub_def str_lower_def lower_char_def
      is_ascii_letter_def isspace_def try_except_def stub_toolkit_def str_of_def)

text \<open>Three runs of \<open>main\<close>, the third on the text of the first.\<close>

theorem history_entries_distinct_witness:
  "reachable (Some [\<lparr>entry_text = str_of ''Good!'', entry_sentiment = Positive, entry_polarity = 7 / 10\<rparr>,
                    \<lparr>entry_text = str_of ''BAD'', entry_sentiment = Negative, entry_polarity = - (7 / 10)\<rparr>]) \<and>
   distinct [\<lparr>entry_text = str_of ''Good!'', entry_sentiment = Positive, entry_polarity = 7 / 10\<rparr>,
             \<lparr>entry_text = str_of ''BAD'', entry_sentiment = Negative, entry_polarity = - (7 / 10)\<rparr>]"
proof -
  let ?g = "\<lparr>entry_text = str_of ''Good!'', entry_sentiment = Positive, entry_polarity = 7 / 10\<rparr>"
  let ?b = "\<lparr>entry_text = str_of ''BAD'', entry_sentiment = Negative, entry_polarity = - (7 / 10)\<rparr>"
  have g: "str_of ''Good!'' \<noteq> []" and b: "str_of ''BAD'' \<noteq> []"
    by (simp_all add: str_of_def)
  have "main stub_toolkit (str_of ''Good!'') None = Inr (Some [?g])"
    using main_step [OF g sentiment_good, of None]
    by (simp add: history_append_def current_analysis_def preview_def str_of_def)
  with reachable.start have r1: "reachable (Some [?g])"
    by (rule reachable.step)
  have "main stub_toolkit (str_of ''BAD'') (Some [?g]) = Inr (Some [?g, ?b])"
    using main_step [OF b sentiment_bad, of "Some [?g]"]
    by (simp add: history_append_def current_analysis_def preview_def str_of_def)
  with r1 have r2: "reachable (Some [?g, ?b])"
    by (rule reachable.step)
  have "main stub_toolkit (str_of ''Good!'') (Some [?g, ?b]) = Inr (Some [?g, ?b])"
    using main_step [OF g sentiment_good, of "Some [?g, ?b]"]
    by (simp add: history_append_def current_analysis_def preview_def str_of_def)
  with r2 have r3: "reachable (Some [?g, ?b])"
    by (rule reachable.step)
  from r3 history_entries_distinct [OF r3 refl] show ?thesis
    by simp
qed

subsection \<open>Totality\<close>

text \<open>
  C9. For every text and whatever the toolkit does, the analysis returns a result and
  raises nothing, and so does \<open>main\<close>. In the result the category follows the polarity, the
  two counts are those of the text, the entry for the history is built from the text and
  the sentiment, and its text has at most 53 code points.
\<close>

theorem analyze_total:
  "(\<exists>a. snd (analyze tk text_input) = Inr a \<and>
        category (sentiment_of a) =
          (if polarity (sentiment_of a) > 0 then Positive
           else if polarity (sentiment_of a) < 0 then Negative else Neutral) \<and>
        word_count (details_of a) = length (str_split text_input) \<and>
        sentence_count (details_of a) = length (sentences text_input) \<and>
        entry_of a = current_analysis text_input (sentiment_of a) \<and>
        length (entry_text (entry_of a)) \<le> 53) \<and>
   (\<exists>st'. main tk text_input st = Inr st')"
proof -
  obtain r where r: "snd (get_sentiment tk (clean_text text_input)) = Inr r"
    and c: "category r = (if polarity r > 0 then Positive else if polarity r < 0 then Negative else Neutral)"
    using get_sentiment_returns by blast
  obtain d where d: "snd (analyze_text_details tk text_input) = Inr d"
    and w: "word_count d = length (str_split text_input)"
    and n: "sentence_count d = length (sentences text_input)"
    using analyze_text_details_returns by blast
  let ?a = "\<lparr>sentiment_of = r, details_of = d, entry_of = current_analysis text_input r\<rparr>"
  have a: "snd (analyze tk text_input) = Inr ?a"
    using r d by (rule analyze_Inr)
  have l: "length (entry_text (current_analysis text_input r)) \<le> 53"
    by (simp add: current_analysis_def preview_def str_of_def)
  have "\<exists>a. snd (analyze tk text_input) = Inr a \<and>
        category (sentiment_of a) =
          (if polarity (sentiment_of a) > 0 then Positive
           else if polarity (sentiment_of a) < 0 then Negative else Neutral) \<and>
        word_count (details_of a) = length (str_split text_input) \<and>
        sentence_count (details_of a) = length (sentences text_input) \<and>
        entry_of a = current_analysis text_input (sentiment_of a) \<and>
        length (entry_text (entry_of a)) \<le> 53"
    using a c w n l by (intro exI [of _ ?a]) simp
  moreover have "\<exists>st'. main tk text_input st = Inr st'"
  proof (cases "text_input = []")
    case True
    then show ?thesis
      by (simp add: main_def)
  next
    case False
    then show ?thesis
      using main_step [OF False r] by blast
  qed
  ultimately show ?thesis
    by blast
qed

end
